theory Spec2Isabelle
  imports Complex_Main "HOL-Library.Char_ord" "HOL-Library.List_Lexorder"
begin

section \<open>The recipe dispatcher of recipes.py\<close>

subsection \<open>Parsed arguments and calls\<close>

text \<open>
  An object of the libraries the recipes call (a list of paths, a generator, a model,
  a weight path, loaded tensors) is opaque here: it is named by a number.
\<close>

type_synonym obj = nat

text \<open>
  The namespace returned by \<open>arguments.parse_args()\<close>, with the fields that the
  functions below read or assign (\<open>id'\<close> is the field \<open>args.id\<close>). The record is extensible: a scheme
  \<open>'a args_scheme\<close> stands for a namespace with any further fields.
\<close>

record args =
  mode :: string
  data_dir :: string
  id' :: string
  labels :: obj
  input_symbols :: obj
  epochs :: int
  iterations :: int
  single_sample_vqsr :: bool
  deep_variant_vcf :: string

text \<open>
  What one statement of an arm of \<open>run()\<close> does: it calls a function defined in
  recipes.py on \<open>args\<close>, a function of \<open>training_data\<close> (imported as \<open>td\<close>) on
  \<open>args\<close> and keyword arguments, a function of \<open>models\<close>, or \<open>print\<close>.
\<close>

datatype call =
    Recipes string
  | Td string "(string \<times> bool) list"
  | Models string
  | Print "string list"

datatype exn = NameError string | LibraryError string

subsection \<open>The if/elif chain of run()\<close>

text \<open>The \<open>else\<close> arm: \<open>print('\n\n ERROR! Unknown recipe mode:', args.mode, '\n\n\n')\<close>.\<close>

definition unknown_mode :: "string \<Rightarrow> call list" where
  "unknown_mode m =
     [Print [''\<newline>\<newline> ERROR! Unknown recipe mode:'', m, ''\<newline>\<newline>\<newline>'']]"

text \<open>
  \<open>run_arm args\<close> is the chain of \<open>run()\<close>, lines 41 to 180, arm by arm and in the
  order of the source: the value is the body of the arm that the chain enters.
\<close>

definition run_arm :: "'a args_scheme \<Rightarrow> call list" where
  "run_arm args =
     (if ''train_reference'' = mode args then [Recipes ''make_reference_net'']
      else if ''train_reference_annotation'' = mode args then
        [Recipes ''make_reference_annotation_net'']
      else if ''train_reference_plus_skip'' = mode args then
        [Recipes ''train_reference_plus_skip'']
      else if ''train_reference_1layer'' = mode args then
        [Recipes ''make_reference_annotation_net_1layer'']
      else if ''train_annotation_mlp'' = mode args then
        [Recipes ''make_annotation_multilayer_perceptron'']
      else if ''train_ref_read'' = mode args then [Recipes ''train_ref_read_model'']
      else if ''train_ref_read_resnet'' = mode args then [Recipes ''train_ref_read_resnet_model'']
      else if ''train_ref_read_dilated'' = mode args then
        [Recipes ''train_ref_read_dilated_model'']
      else if ''train_train_ref_read_b'' = mode args then [Recipes ''train_ref_read_model_b'']
      else if ''train_ref_read_bayes'' = mode args then
        [Recipes ''train_ref_read_inception_model'']
      else if ''train_pileup_filter'' = mode args then [Recipes ''train_pileup_filter'']
      else if ''train_calling_model'' = mode args then [Recipes ''train_calling_model'']
      else if ''train_calling_full2d'' = mode args then [Recipes ''train_calling_model_full'']
      else if ''train_calling_model_1d'' = mode args then [Recipes ''train_calling_model_1d'']
      else if ''train_ref_read_anno'' = mode args then
        [Recipes ''train_ref_read_annotation_model'']
      else if ''train_ref_read_anno_exome'' = mode args then
        [Recipes ''train_ref_read_annotation_exome_model'']
      else if ''train_bqsr'' = mode args then [Recipes ''bqsr_train_tensor'']
      else if ''train_bqsr_anno'' = mode args then [Recipes ''bqsr_train_annotation_tensor'']
      else if ''train_bqsr_lstm'' = mode args then [Recipes ''bqsr_lstm_train_tensor'']
      else if ''train_depristo_inception'' = mode args then [Recipes ''depristo_inception'']
      else if ''test_tensor'' = mode args then [Recipes ''test_tensor_and_annotations'']
      else if ''test_tensor_exome'' = mode args then
        [Recipes ''test_ref_read_annotation_exome_model'']
      else if ''test_tensor_vcf'' = mode args then [Recipes ''test_tensor_vs_vcf'']
      else if ''test_tensor_multi_vcf'' = mode args then
        [Recipes ''test_tensor_vs_multiple_vcfs'']
      else if ''test_tensor_filters'' = mode args then
        [Recipes ''test_tensor_and_annotations_vs_filters'']
      else if ''test_tensor_gnomad'' = mode args then [Recipes ''test_tensor_vs_gnomad'']
      else if ''test_refconv_gnomad'' = mode args then [Recipes ''test_refconv_vs_gnomad'']
      else if ''test_refconv'' = mode args then [Recipes ''test_reference_annotation_net'']
      else if ''test_ref'' = mode args then [Recipes ''test_reference_net'']
      else if ''test_anno_mlp'' = mode args then
        [Recipes ''test_annotation_multilayer_perceptron'']
      else if ''test_caller'' = mode args then [Recipes ''test_caller_pileup'']
      else if ''test_caller_2d'' = mode args then [Recipes ''test_caller_2d'']
      else if ''test_architectures'' = mode args then [Recipes ''test_architectures'']
      else if ''plot_vcf_roc'' = mode args then [Recipes ''plot_vcf_roc'']
      else if ''plot_vcf_roc_gnomad'' = mode args then [Recipes ''plot_vcf_roc_gnomad_scores'']
      else if ''plot_vcf_roc_gnomad_like'' = mode args then
        [Recipes ''plot_vcf_roc_gnomad_like_scores'']
      else if ''plot_multi_vcf_roc'' = mode args then [Recipes ''plot_multi_vcf_roc'']
      else if ''roc_animation'' = mode args then [Recipes ''roc_curve_through_learning'']
      else if ''pr_segmentation_animation'' = mode args then
        [Recipes ''roc_curve_through_learning_segmentation'']
      else if ''write_tensors'' = mode args then
        [Td ''tensors_from_tensor_map'' [(''include_annotations'', True)]]
      else if ''write_paired_read_tensors'' = mode args then
        [Td ''paired_read_tensors_from_map'' [(''include_annotations'', True)]]
      else if ''write_tensors_2bit'' = mode args then
        [Td ''tensors_from_tensor_map_2channel'' [(''include_annotations'', True)]]
      else if ''write_tensors_no_annotations'' = mode args then
        [Td ''tensors_from_tensor_map'' [(''include_annotations'', False)]]
      else if ''write_tensors_gnomad_annotations'' = mode args then
        [Td ''tensors_from_tensor_map_gnomad_annos'' []]
      else if ''write_tensors_gnomad_annotations_per_allele_1d'' = mode args then
        [Td ''tensors_from_tensor_map_gnomad_annos_per_allele'' [(''include_reads'', False),
         (''include_reference'', True)]]
      else if ''write_tensors_gnomad_1d'' = mode args then
        [Td ''tensors_from_tensor_map_gnomad_annos'' [(''include_reads'', False),
         (''include_reference'', True)]]
      else if ''write_depristo'' = mode args then [Td ''nist_samples_to_png'' []]
      else if ''write_calling_tensors'' = mode args then
        [Td ''calling_tensors_from_tensor_map'' []]
      else if ''write_pileup_filter_tensors'' = mode args then
        [Td ''tensors_from_tensor_map'' [(''pileup'', True)]]
      else if ''write_calling_tensors_1d'' = mode args then
        [Td ''calling_tensors_from_tensor_map'' [(''pileup'', True)]]
      else if ''write_dna_tensors'' = mode args then [Td ''write_dna_and_annotations'' []]
      else if ''write_bed_tensors'' = mode args then [Td ''write_dna_multisource_annotations'' []]
      else if ''write_bed_tensors_dna'' = mode args then
        [Td ''write_dna_multisource_annotations'' [(''include_annotations'', False)]]
      else if ''write_bed_tensors_annotations'' = mode args then
        [Td ''write_dna_multisource_annotations'' [(''include_dna'', False)]]
      else if ''write_bqsr_tensors'' = mode args then
        [Td ''bqsr_tensors_from_tensor_map'' [(''include_annotations'', True)]]
      else if ''write_filters_2d'' = mode args then
        [Models ''build_read_tensor_2d_and_annotations_model'', Models ''write_filters_2d'']
      else if ''write_filters_1d'' = mode args then
        [Models ''build_reference_model'', Models ''write_filters_1d'']
      else if ''write_tranches'' = mode args then [Td ''write_tranches'' []]
      else if ''inspect_tensors'' = mode args then [Td ''inspect_read_tensors'' []]
      else if ''inspect_dataset'' = mode args then [Td ''inspect_dataset'' []]
      else if ''inspect_architectures'' = mode args then [Recipes ''inspect_architectures'']
      else if ''inspect_gnomad'' = mode args then [Td ''inspect_gnomad_low_ac'' []]
      else if ''combine_vcfs'' = mode args then [Td ''combine_vcfs'' []]
      else unknown_mode (mode args))"

text \<open>
  A body is executed statement by statement. The functions called are not part of
  recipes.py's dispatcher: \<open>invoke\<close> stands for them, it takes the call and the program
  state and either raises or returns the new state. \<open>print\<close> appends its arguments to
  the standard output and touches nothing else.
\<close>

fun exec_calls ::
  "(call \<Rightarrow> 's \<Rightarrow> exn + 's) \<Rightarrow> call list \<Rightarrow> 's \<times> string list list
     \<Rightarrow> exn + 's \<times> string list list" where
  "exec_calls invoke [] w = Inr w"
| "exec_calls invoke (Print xs # cs) (s, out) = exec_calls invoke cs (s, out @ [xs])"
| "exec_calls invoke (c # cs) (s, out) =
     (case invoke c s of
        Inl e \<Rightarrow> Inl e
      | Inr s' \<Rightarrow> exec_calls invoke cs (s', out))"

text \<open>Whether a statement is a call of \<open>print\<close>.\<close>

fun is_print :: "call \<Rightarrow> bool" where
  "is_print (Print xs) = True"
| "is_print c = False"

definition run ::
  "(call \<Rightarrow> 's \<Rightarrow> exn + 's) \<Rightarrow> 'a args_scheme \<Rightarrow> 's \<times> string list list
     \<Rightarrow> exn + 's \<times> string list list" where
  "run invoke args w = exec_calls invoke (run_arm args) w"

subsection \<open>The arms as data\<close>

text \<open>
  The guards of the chain all have the form \<open>'literal' == args.mode\<close>. The arms are
  listed here as pairs of the literal and the body, in the order of the source.
\<close>

definition recipe_arms :: "(string \<times> call list) list" where
  "recipe_arms =
     [(''train_reference'', [Recipes ''make_reference_net'']),
      (''train_reference_annotation'', [Recipes ''make_reference_annotation_net'']),
      (''train_reference_plus_skip'', [Recipes ''train_reference_plus_skip'']),
      (''train_reference_1layer'', [Recipes ''make_reference_annotation_net_1layer'']),
      (''train_annotation_mlp'', [Recipes ''make_annotation_multilayer_perceptron'']),
      (''train_ref_read'', [Recipes ''train_ref_read_model'']),
      (''train_ref_read_resnet'', [Recipes ''train_ref_read_resnet_model'']),
      (''train_ref_read_dilated'', [Recipes ''train_ref_read_dilated_model'']),
      (''train_train_ref_read_b'', [Recipes ''train_ref_read_model_b'']),
      (''train_ref_read_bayes'', [Recipes ''train_ref_read_inception_model'']),
      (''train_pileup_filter'', [Recipes ''train_pileup_filter'']),
      (''train_calling_model'', [Recipes ''train_calling_model'']),
      (''train_calling_full2d'', [Recipes ''train_calling_model_full'']),
      (''train_calling_model_1d'', [Recipes ''train_calling_model_1d'']),
      (''train_ref_read_anno'', [Recipes ''train_ref_read_annotation_model'']),
      (''train_ref_read_anno_exome'', [Recipes ''train_ref_read_annotation_exome_model'']),
      (''train_bqsr'', [Recipes ''bqsr_train_tensor'']),
      (''train_bqsr_anno'', [Recipes ''bqsr_train_annotation_tensor'']),
      (''train_bqsr_lstm'', [Recipes ''bqsr_lstm_train_tensor'']),
      (''train_depristo_inception'', [Recipes ''depristo_inception'']),
      (''test_tensor'', [Recipes ''test_tensor_and_annotations'']),
      (''test_tensor_exome'', [Recipes ''test_ref_read_annotation_exome_model'']),
      (''test_tensor_vcf'', [Recipes ''test_tensor_vs_vcf'']),
      (''test_tensor_multi_vcf'', [Recipes ''test_tensor_vs_multiple_vcfs'']),
      (''test_tensor_filters'', [Recipes ''test_tensor_and_annotations_vs_filters'']),
      (''test_tensor_gnomad'', [Recipes ''test_tensor_vs_gnomad'']),
      (''test_refconv_gnomad'', [Recipes ''test_refconv_vs_gnomad'']),
      (''test_refconv'', [Recipes ''test_reference_annotation_net'']),
      (''test_ref'', [Recipes ''test_reference_net'']),
      (''test_anno_mlp'', [Recipes ''test_annotation_multilayer_perceptron'']),
      (''test_caller'', [Recipes ''test_caller_pileup'']),
      (''test_caller_2d'', [Recipes ''test_caller_2d'']),
      (''test_architectures'', [Recipes ''test_architectures'']),
      (''plot_vcf_roc'', [Recipes ''plot_vcf_roc'']),
      (''plot_vcf_roc_gnomad'', [Recipes ''plot_vcf_roc_gnomad_scores'']),
      (''plot_vcf_roc_gnomad_like'', [Recipes ''plot_vcf_roc_gnomad_like_scores'']),
      (''plot_multi_vcf_roc'', [Recipes ''plot_multi_vcf_roc'']),
      (''roc_animation'', [Recipes ''roc_curve_through_learning'']),
      (''pr_segmentation_animation'', [Recipes ''roc_curve_through_learning_segmentation'']),
      (''write_tensors'', [Td ''tensors_from_tensor_map'' [(''include_annotations'', True)]]),
      (''write_paired_read_tensors'',
         [Td ''paired_read_tensors_from_map'' [(''include_annotations'', True)]]),
      (''write_tensors_2bit'',
         [Td ''tensors_from_tensor_map_2channel'' [(''include_annotations'', True)]]),
      (''write_tensors_no_annotations'',
         [Td ''tensors_from_tensor_map'' [(''include_annotations'', False)]]),
      (''write_tensors_gnomad_annotations'', [Td ''tensors_from_tensor_map_gnomad_annos'' []]),
      (''write_tensors_gnomad_annotations_per_allele_1d'',
         [Td ''tensors_from_tensor_map_gnomad_annos_per_allele'' [(''include_reads'', False),
          (''include_reference'', True)]]),
      (''write_tensors_gnomad_1d'',
         [Td ''tensors_from_tensor_map_gnomad_annos'' [(''include_reads'', False),
          (''include_reference'', True)]]),
      (''write_depristo'', [Td ''nist_samples_to_png'' []]),
      (''write_calling_tensors'', [Td ''calling_tensors_from_tensor_map'' []]),
      (''write_pileup_filter_tensors'', [Td ''tensors_from_tensor_map'' [(''pileup'', True)]]),
      (''write_calling_tensors_1d'',
         [Td ''calling_tensors_from_tensor_map'' [(''pileup'', True)]]),
      (''write_dna_tensors'', [Td ''write_dna_and_annotations'' []]),
      (''write_bed_tensors'', [Td ''write_dna_multisource_annotations'' []]),
      (''write_bed_tensors_dna'',
         [Td ''write_dna_multisource_annotations'' [(''include_annotations'', False)]]),
      (''write_bed_tensors_annotations'',
         [Td ''write_dna_multisource_annotations'' [(''include_dna'', False)]]),
      (''write_bqsr_tensors'',
         [Td ''bqsr_tensors_from_tensor_map'' [(''include_annotations'', True)]]),
      (''write_filters_2d'',
         [Models ''build_read_tensor_2d_and_annotations_model'', Models ''write_filters_2d'']),
      (''write_filters_1d'', [Models ''build_reference_model'', Models ''write_filters_1d'']),
      (''write_tranches'', [Td ''write_tranches'' []]),
      (''inspect_tensors'', [Td ''inspect_read_tensors'' []]),
      (''inspect_dataset'', [Td ''inspect_dataset'' []]),
      (''inspect_architectures'', [Recipes ''inspect_architectures'']),
      (''inspect_gnomad'', [Td ''inspect_gnomad_low_ac'' []]),
      (''combine_vcfs'', [Td ''combine_vcfs'' []])]"

definition recognized_modes :: "string list" where
  "recognized_modes = map fst recipe_arms"

text \<open>An if/elif chain over such pairs enters the first arm whose literal is equal.\<close>

fun if_elif :: "(string \<times> 'b) list \<Rightarrow> 'b \<Rightarrow> string \<Rightarrow> 'b" where
  "if_elif [] dflt m = dflt"
| "if_elif ((lit, body) # rest) dflt m = (if lit = m then body else if_elif rest dflt m)"

text \<open>
  The lookup table that the specification's design note speaks of: a dictionary from
  mode strings to actions, filled entry by entry (a later entry for the same key would
  replace an earlier one), and a default for a key that is absent.
\<close>

definition recipe_table :: "string \<rightharpoonup> call list" where
  "recipe_table = fold (\<lambda>(k, v) t. t(k \<mapsto> v)) recipe_arms Map.empty"

definition run_by_lookup :: "'a args_scheme \<Rightarrow> call list" where
  "run_by_lookup args =
     (case recipe_table (mode args) of
        Some body \<Rightarrow> body
      | None \<Rightarrow> unknown_mode (mode args))"

text \<open>
  Two stand-ins for the functions that the arms call: one that returns and records the
  call in the program state, and one that raises.
\<close>

definition recording :: "call \<Rightarrow> call list \<Rightarrow> exn + call list" where
  "recording c s = Inr (s @ [c])"

definition failing :: "call \<Rightarrow> call list \<Rightarrow> exn + call list" where
  "failing c s = Inl (LibraryError ''failed'')"

text \<open>A parsed argument record, used to instantiate the theorems below.\<close>

definition example_args :: args where
  "example_args =
     \<lparr>mode = ''train_bqsr_lstm'', data_dir = ''/data/'', id' = ''run1'', labels = 0,
      input_symbols = 0, epochs = 10, iterations = 5, single_sample_vqsr = False, deep_variant_vcf = ''''\<rparr>"

definition unknown_args :: args where
  "unknown_args = example_args\<lparr>mode := ''train''\<rparr>"

definition other_args :: args where
  "other_args =
     \<lparr>mode = ''train_bqsr_lstm'', data_dir = ''/elsewhere/'', id' = ''run2'', labels = 1,
      input_symbols = 2, epochs = 3, iterations = 4, single_sample_vqsr = True, deep_variant_vcf = ''dv.vcf''\<rparr>"

section \<open>The BQSR training recipes\<close>

subsection \<open>Names bound at module level\<close>

text \<open>
  The names that recipes.py binds at module level: the imports of lines 16 to 34, and the
  \<open>def\<close> statements, each with the line it stands on, in the order of the source.
  Nothing else is bound there (line 1899 only calls \<open>run()\<close>).
\<close>

definition module_imports :: "string list" where
  "module_imports =
     [''division'', ''print_function'', ''absolute_import'', ''os'', ''sys'', ''vcf'', ''h5py'',
      ''time'', ''plots'', ''pysam'', ''models'', ''defines'', ''operator'', ''arguments'', ''np'',
      ''td'', ''Counter'']"

definition module_defs :: "(string \<times> nat) list" where
  "module_defs =
     [(''run'', 36), (''inspect_architectures'', 183), (''train_calling_model'', 291),
      (''train_calling_model_full'', 333), (''train_calling_model_1d'', 374),
      (''train_pileup_filter'', 426), (''test_caller_pileup'', 461), (''test_caller_2d'', 512),
      (''bqsr_train_tensor'', 562), (''bqsr_train_annotation_tensor'', 590),
      (''bqsr_lstm_train_tensor'', 619), (''train_ref_read_model'', 646),
      (''train_ref_read_model_b'', 679), (''train_ref_read_resnet_model'', 724),
      (''train_ref_read_inception_model'', 756), (''train_ref_read_dilated_model'', 788),
      (''train_ref_read_annotation_model'', 820),
      (''train_ref_read_annotation_exome_model'', 847),
      (''test_tensor_and_annotations_vs_filters'', 880), (''test_tensor_vs_vcf'', 935),
      (''test_tensor_vs_multiple_vcfs'', 983), (''test_tensor_vs_gnomad'', 1054),
      (''test_refconv_vs_gnomad'', 1187), (''plot_vcf_roc'', 1273),
      (''plot_vcf_roc_gnomad_scores'', 1286), (''plot_vcf_roc_gnomad_like_scores'', 1302),
      (''plot_multi_vcf_roc'', 1320), (''test_tensor_and_annotations'', 1340),
      (''test_ref_read_annotation_exome_model'', 1360),
      (''roc_curve_through_learning'', 1380), (''roc_curve_through_learning'', 1413),
      (''roc_curve_through_learning_segmentation'', 1447), (''depristo_inception'', 1483),
      (''make_annotation_multilayer_perceptron'', 1512), (''make_reference_net'', 1545),
      (''make_reference_annotation_net'', 1571), (''train_reference_plus_skip'', 1596),
      (''make_reference_annotation_net_1layer'', 1621),
      (''test_reference_annotation_net'', 1646), (''test_reference_net'', 1688),
      (''test_annotation_multilayer_perceptron'', 1730),
      (''inference_with_architectures'', 1772), (''test_architectures'', 1788)]"

definition module_names :: "string list" where
  "module_names = module_imports @ map fst module_defs"

subsection \<open>Frames, values and the libraries\<close>

text \<open>
  The frame of a call of a recipe: the \<open>args\<close> object (the parameter, which the recipe
  mutates), the local names bound so far, the library functions entered so far, and the
  exception that ended the call, if one did.
\<close>

record frame =
  f_args :: args
  f_locals :: "string \<rightharpoonup> obj"
  f_trace :: "string list"
  raised :: "exn option"

definition enter :: "args \<Rightarrow> frame" where
  "enter a = \<lparr>f_args = a, f_locals = Map.empty, f_trace = [], raised = None\<rparr>"

datatype pyval =
    VArgs args
  | VObj obj
  | VGlobal string
  | VStr string
  | VKeyword string int

text \<open>
  The modules \<open>td\<close>, \<open>models\<close>, \<open>defines\<close>, \<open>arguments\<close> and \<open>plots\<close> are not
  part of the sources; they are a parameter. A call is given the dotted name of the
  function and the values of the arguments, and either returns an object (three objects
  for \<open>call3\<close>) or raises an exception; so do the attribute of a module and the
  subscript of an object.
\<close>

record library =
  call :: "string \<Rightarrow> pyval list \<Rightarrow> exn + obj"
  call3 :: "string \<Rightarrow> pyval list \<Rightarrow> exn + obj \<times> obj \<times> obj"
  attr :: "string \<Rightarrow> exn + obj"
  item :: "obj \<Rightarrow> nat \<Rightarrow> exn + obj"

text \<open>
  Reading a name: the parameter \<open>args\<close>, then the local names, then the names of the
  module; a name bound nowhere raises \<open>NameError\<close>. (None of the names read below is a
  builtin.)
\<close>

definition load :: "frame \<Rightarrow> string \<Rightarrow> exn + pyval" where
  "load fr x =
     (if x = ''args'' then Inr (VArgs (f_args fr))
      else case f_locals fr x of
        Some v \<Rightarrow> Inr (VObj v)
      | None \<Rightarrow> if x \<in> set module_names then Inr (VGlobal x) else Inl (NameError x))"

text \<open>The expressions that occur as arguments of the calls.\<close>

datatype arg =
    Name string
  | Subscript string nat
  | Args_labels
  | Args_id
  | Keyword string int

fun eval_arg :: "library \<Rightarrow> frame \<Rightarrow> arg \<Rightarrow> exn + pyval" where
  "eval_arg L fr (Name x) = load fr x"
| "eval_arg L fr (Subscript x i) =
     (case f_locals fr x of
        Some v \<Rightarrow> (case item L v i of Inl e \<Rightarrow> Inl e | Inr w \<Rightarrow> Inr (VObj w))
      | None \<Rightarrow> Inl (NameError x))"
| "eval_arg L fr Args_labels = Inr (VObj (labels (f_args fr)))"
| "eval_arg L fr Args_id = Inr (VStr (id' (f_args fr)))"
| "eval_arg L fr (Keyword k n) = Inr (VKeyword k n)"

text \<open>Arguments are evaluated from left to right; the first exception ends it.\<close>

fun eval_args :: "library \<Rightarrow> frame \<Rightarrow> arg list \<Rightarrow> exn + pyval list" where
  "eval_args L fr [] = Inr []"
| "eval_args L fr (a # as) =
     (case eval_arg L fr a of
        Inl e \<Rightarrow> Inl e
      | Inr v \<Rightarrow> (case eval_args L fr as of Inl e \<Rightarrow> Inl e | Inr vs \<Rightarrow> Inr (v # vs)))"

text \<open>
  A right-hand side yields an object or an exception, and the frame with the trace
  extended by the library function that was entered. The arguments are evaluated before
  the function is entered; the function may then raise.
\<close>

definition call_expr ::
  "library \<Rightarrow> string \<Rightarrow> arg list \<Rightarrow> frame \<Rightarrow> (exn + obj) \<times> frame" where
  "call_expr L callee as fr =
     (case eval_args L fr as of
        Inl e \<Rightarrow> (Inl e, fr)
      | Inr vs \<Rightarrow> (call L callee vs, fr\<lparr>f_trace := f_trace fr @ [callee]\<rparr>))"

definition attr_expr :: "library \<Rightarrow> string \<Rightarrow> frame \<Rightarrow> (exn + obj) \<times> frame" where
  "attr_expr L name fr = (attr L name, fr)"

text \<open>The statements: \<open>x = e\<close>, \<open>args.field = e\<close>, \<open>x, y, z = f(...)\<close> and \<open>e\<close>.\<close>

definition assign :: "string \<Rightarrow> (frame \<Rightarrow> (exn + obj) \<times> frame) \<Rightarrow> frame \<Rightarrow> frame" where
  "assign x rhs fr =
     (case rhs fr of
        (Inl e, fr') \<Rightarrow> fr'\<lparr>raised := Some e\<rparr>
      | (Inr v, fr') \<Rightarrow> fr'\<lparr>f_locals := (f_locals fr')(x \<mapsto> v)\<rparr>)"

definition assign_attr ::
  "(obj \<Rightarrow> args \<Rightarrow> args) \<Rightarrow> (frame \<Rightarrow> (exn + obj) \<times> frame) \<Rightarrow> frame \<Rightarrow> frame" where
  "assign_attr setter rhs fr =
     (case rhs fr of
        (Inl e, fr') \<Rightarrow> fr'\<lparr>raised := Some e\<rparr>
      | (Inr v, fr') \<Rightarrow> fr'\<lparr>f_args := setter v (f_args fr')\<rparr>)"

definition assign3 ::
  "library \<Rightarrow> string \<times> string \<times> string \<Rightarrow> string \<Rightarrow> arg list \<Rightarrow> frame \<Rightarrow> frame" where
  "assign3 L targets callee as fr =
     (case eval_args L fr as of
        Inl e \<Rightarrow> fr\<lparr>raised := Some e\<rparr>
      | Inr vs \<Rightarrow>
          (case call3 L callee vs of
             Inl e \<Rightarrow> fr\<lparr>f_trace := f_trace fr @ [callee], raised := Some e\<rparr>
           | Inr (u, v, w) \<Rightarrow>
               (case targets of
                  (x, y, z) \<Rightarrow>
                    fr\<lparr>f_locals := (f_locals fr)(x \<mapsto> u, y \<mapsto> v, z \<mapsto> w),
                        f_trace := f_trace fr @ [callee]\<rparr>)))"

definition expr_stmt :: "(frame \<Rightarrow> (exn + obj) \<times> frame) \<Rightarrow> frame \<Rightarrow> frame" where
  "expr_stmt rhs fr =
     (case rhs fr of
        (Inl e, fr') \<Rightarrow> fr'\<lparr>raised := Some e\<rparr>
      | (Inr v, fr') \<Rightarrow> fr')"

text \<open>A body runs its statements in order, up to the first that raises.\<close>

fun block :: "(frame \<Rightarrow> frame) list \<Rightarrow> frame \<Rightarrow> frame" where
  "block [] fr = fr"
| "block (s # ss) fr = (if raised fr = None then block ss (s fr) else fr)"

subsection \<open>The recipes\<close>

text \<open>\<open>bqsr_train_tensor\<close>, lines 562 to 587.\<close>

definition bqsr_train_tensor :: "library \<Rightarrow> args \<Rightarrow> frame" where
  "bqsr_train_tensor L a =
     block
       [assign_attr (\<lambda>v a. a\<lparr>labels := v\<rparr>) (attr_expr L ''defines.base_labels_binary''),
        assign_attr (\<lambda>v a. a\<lparr>input_symbols := v\<rparr>)
          (call_expr L ''defines.bqsr_tensor_channel_map'' []),
        assign3 L (''train_paths'', ''valid_paths'', ''test_paths'')
          ''td.get_train_valid_test_paths'' [Name ''args''],
        assign ''generate_train''
          (call_expr L ''td.bqsr_tensor_generator'' [Name ''args'', Name ''train_paths'']),
        assign ''generate_valid''
          (call_expr L ''td.bqsr_tensor_generator'' [Name ''args'', Name ''valid_paths'']),
        assign ''weight_path'' (call_expr L ''arguments.weight_path_from_args'' [Name ''args'']),
        assign ''model'' (call_expr L ''models.build_bqsr_model'' [Name ''args'']),
        assign ''model''
          (call_expr L ''models.train_model_from_generators''
             [Name ''args'', Name ''model'', Name ''generate_train'', Name ''generate_valid'',
              Name ''weight_path'']),
        assign ''test''
          (call_expr L ''td.load_bqsr_tensors_from_class_dirs''
             [Name ''args'', Name ''test_paths'', Keyword ''per_class_max'' 1800]),
        expr_stmt
          (call_expr L ''plots.plot_roc_per_class''
             [Name ''model'', Subscript ''test'' 0, Subscript ''test'' 1, Args_labels, Args_id])]
       (enter a)"

text \<open>\<open>bqsr_lstm_train_tensor\<close>, lines 619 to 643.\<close>

definition bqsr_lstm_train_tensor :: "library \<Rightarrow> args \<Rightarrow> frame" where
  "bqsr_lstm_train_tensor L a =
     block
       [assign_attr (\<lambda>v a. a\<lparr>labels := v\<rparr>) (attr_expr L ''defines.base_labels_binary''),
        assign_attr (\<lambda>v a. a\<lparr>input_symbols := v\<rparr>)
          (call_expr L ''defines.bqsr_tensor_channel_map'' []),
        assign3 L (''train_paths'', ''valid_paths'', ''test_paths'')
          ''td.get_train_valid_test_paths'' [Name ''args''],
        assign ''generate_train''
          (call_expr L ''td.bqsr_tensor_generator'' [Name ''args'', Name ''train_paths'']),
        assign ''generate_valid''
          (call_expr L ''td.bqsr_tensor_generator'' [Name ''args'', Name ''valid_paths'']),
        assign ''model'' (call_expr L ''models.build_bqsr_lstm_model'' [Name ''args'']),
        assign ''model''
          (call_expr L ''models.train_model_from_generators''
             [Name ''args'', Name ''model'', Name ''generate_train'', Name ''generate_valid'',
              Name ''weight_path'']),
        assign ''test''
          (call_expr L ''td.load_bqsr_tensors_from_class_dirs''
             [Name ''args'', Name ''test_paths'', Keyword ''per_class_max'' 1800]),
        expr_stmt
          (call_expr L ''plots.plot_roc_per_class''
             [Name ''model'', Subscript ''test'' 0, Subscript ''test'' 1, Args_labels, Args_id])]
       (enter a)"


text \<open>
  A library whose calls all return, and one in which
  \<open>td.get_train_valid_test_paths\<close> raises, as for a data directory that is missing.
\<close>

definition example_library :: library where
  "example_library =
     \<lparr>call = (\<lambda>f vs. Inr (length f + length vs)), call3 = (\<lambda>f vs. Inr (1, 2, 3)),
      attr = (\<lambda>n. Inr (length n)), item = (\<lambda>v i. Inr (v + i))\<rparr>"






section \<open>Comparing the network with the filters\<close>

subsection \<open>Dictionaries and list comprehensions\<close>

text \<open>
  A dictionary is the list of its items in the order of its keys (the keys of a
  dictionary are distinct); \<open>d[k]\<close> raises \<open>KeyError\<close> for a key that is absent.
\<close>

type_synonym ('k, 'v) dict = "('k \<times> 'v) list"


definition keys :: "('k, 'v) dict \<Rightarrow> 'k list" where
  "keys d = map fst d"



text \<open>\<open>[f(p) for p in ks]\<close>: the elements in order, up to the first that raises.\<close>

fun comprehension :: "('k \<Rightarrow> 'e + 'v) \<Rightarrow> 'k list \<Rightarrow> 'e + 'v list" where
  "comprehension f [] = Inr []"
| "comprehension f (p # ps) =
     (case f p of
        Inl e \<Rightarrow> Inl e
      | Inr v \<Rightarrow> (case comprehension f ps of Inl e \<Rightarrow> Inl e | Inr vs \<Rightarrow> Inr (v # vs)))"


subsection \<open>test_tensor_and_annotations_vs_filters, lines 907 to 926\<close>



text \<open>
  Baseline dictionaries over the positions 1, 2 and 3, and two dictionaries of the
  network: one that holds every position, one that lacks position 2.
\<close>

definition ex_heng_li :: "(nat, int \<times> bool) dict" where
  "ex_heng_li = [(1, (5, True)), (2, (7, False)), (3, (1, True))]"

definition ex_gatk :: "(nat, int \<times> bool) dict" where
  "ex_gatk = [(2, (0, False)), (1, (1, True))]"

definition ex_gatk_scores :: "(nat, int \<times> bool) dict" where
  "ex_gatk_scores = [(1, (-4, True)), (2, (9, False)), (4, (2, True))]"




section \<open>Comparing the network with the gnomAD models\<close>

text \<open>
  What the calls of \<open>training_data\<close> in lines 1093 to 1105 of
  \<open>test_tensor_vs_gnomad\<close> return, each a pair of a SNP and an INDEL dictionary:
  \<open>gnomad_scores_from_positions(args, positions)\<close>, the same with
  \<open>score_key='AS_RF'\<close>, \<open>scores_from_positions(args, positions)\<close>, and
  \<open>scores_from_positions(args, positions, 'QUAL', vcf)\<close> as a function of the VCF.
\<close>

record ('k, 'v) gnomad_inputs =
  gnomad_vqsr :: "('k, 'v) dict \<times> ('k, 'v) dict"
  gnomad_rf :: "('k, 'v) dict \<times> ('k, 'v) dict"
  single_sample :: "('k, 'v) dict \<times> ('k, 'v) dict"
  deep_variant :: "string \<Rightarrow> ('k, 'v) dict \<times> ('k, 'v) dict"

text \<open>
  \<open>set.intersection(*sets)\<close>: the first set intersected with the others in turn; with
  no argument at all the call raises \<open>TypeError\<close>, which is \<open>None\<close> here.
\<close>

fun set_intersection :: "'a set list \<Rightarrow> 'a set option" where
  "set_intersection [] = None"
| "set_intersection (s # ss) = Some (fold (\<lambda>t acc. acc \<inter> t) ss s)"

text \<open>
  Lines 1093 to 1108: the lists of key sets, extended when \<open>args.single_sample_vqsr\<close>
  is true and when \<open>args.deep_variant_vcf\<close> is a non-empty string, and their
  intersections \<open>shared_snp_keys\<close> and \<open>shared_indel_keys\<close>.
\<close>

definition test_tensor_vs_gnomad_keys ::
  "'a args_scheme \<Rightarrow> ('k, 'v) gnomad_inputs \<Rightarrow> ('k set \<times> 'k set) option" where
  "test_tensor_vs_gnomad_keys args td =
     (case (gnomad_vqsr td, gnomad_rf td) of
        ((snp_vqsr, indel_vqsr), (snp_rf, indel_rf)) \<Rightarrow>
     let snp_key_sets = [set (keys snp_vqsr), set (keys snp_rf)];
         indel_key_sets = [set (keys indel_vqsr), set (keys indel_rf)];
         (snp_key_sets, indel_key_sets) =
           (if single_sample_vqsr args then
              (case single_sample td of
                 (snp_single_sample, indel_single_sample) \<Rightarrow>
                   (snp_key_sets @ [set (keys snp_single_sample)],
                    indel_key_sets @ [set (keys indel_single_sample)]))
            else (snp_key_sets, indel_key_sets));
         (snp_key_sets, indel_key_sets) =
           (if deep_variant_vcf args \<noteq> [] then
              (case deep_variant td (deep_variant_vcf args) of
                 (snp_deep_variant, indel_deep_variant) \<Rightarrow>
                   (snp_key_sets @ [set (keys snp_deep_variant)],
                    indel_key_sets @ [set (keys indel_deep_variant)]))
            else (snp_key_sets, indel_key_sets))
     in case set_intersection snp_key_sets of
          None \<Rightarrow> None
        | Some shared_snp_keys \<Rightarrow>
            (case set_intersection indel_key_sets of
               None \<Rightarrow> None
             | Some shared_indel_keys \<Rightarrow> Some (shared_snp_keys, shared_indel_keys)))"

text \<open>The key sets of the baselines that are switched on, for SNPs and for INDELs.\<close>

definition snp_baselines :: "'a args_scheme \<Rightarrow> ('k, 'v) gnomad_inputs \<Rightarrow> 'k set list" where
  "snp_baselines args td =
     [set (keys (fst (gnomad_vqsr td))), set (keys (fst (gnomad_rf td)))] @
     (if single_sample_vqsr args then [set (keys (fst (single_sample td)))] else []) @
     (if deep_variant_vcf args \<noteq> [] then
        [set (keys (fst (deep_variant td (deep_variant_vcf args))))] else [])"

definition indel_baselines :: "'a args_scheme \<Rightarrow> ('k, 'v) gnomad_inputs \<Rightarrow> 'k set list" where
  "indel_baselines args td =
     [set (keys (snd (gnomad_vqsr td))), set (keys (snd (gnomad_rf td)))] @
     (if single_sample_vqsr args then [set (keys (snd (single_sample td)))] else []) @
     (if deep_variant_vcf args \<noteq> [] then
        [set (keys (snd (deep_variant td (deep_variant_vcf args))))] else [])"

definition ex_gnomad :: "(nat, int \<times> bool) gnomad_inputs" where
  "ex_gnomad =
     \<lparr>gnomad_vqsr = (ex_heng_li, ex_heng_li), gnomad_rf = (ex_gatk_scores, ex_heng_li),
      single_sample = (ex_gatk, ex_gatk),
      deep_variant = (\<lambda>vcf. ([(2, (0, True))], [(3, (0, True))]))\<rparr>"

section \<open>The class directories of the test set\<close>

text \<open>
  The file system as the three test recipes see it: \<open>os.listdir\<close>, whose result comes
  in no particular order, and \<open>os.path.isdir\<close>. \<open>sorted\<close> orders strings
  lexicographically by character code, as the order on \<open>string\<close> does here.
\<close>

record filesystem =
  listdir :: "string \<Rightarrow> string list"
  isdir :: "string \<Rightarrow> bool"

text \<open>Lines 1661 and 1662 of \<open>test_reference_annotation_net\<close>.\<close>

definition test_reference_annotation_net_paths ::
  "filesystem \<Rightarrow> 'a args_scheme \<Rightarrow> string list" where
  "test_reference_annotation_net_paths fs args =
     (let test_dir = data_dir args @ ''test/''
      in [test_dir @ vp. vp \<leftarrow> sort (listdir fs test_dir), isdir fs (test_dir @ vp)])"

text \<open>Lines 1703 and 1704 of \<open>test_reference_net\<close>.\<close>

definition test_reference_net_paths :: "filesystem \<Rightarrow> 'a args_scheme \<Rightarrow> string list" where
  "test_reference_net_paths fs args =
     (let test_dir = data_dir args @ ''test/''
      in [test_dir @ vp. vp \<leftarrow> sort (listdir fs test_dir), isdir fs (test_dir @ vp)])"

text \<open>Lines 1745 and 1746 of \<open>test_annotation_multilayer_perceptron\<close>.\<close>

definition test_annotation_multilayer_perceptron_paths ::
  "filesystem \<Rightarrow> 'a args_scheme \<Rightarrow> string list" where
  "test_annotation_multilayer_perceptron_paths fs args =
     (let test_dir = data_dir args @ ''test/''
      in [test_dir @ vp. vp \<leftarrow> sort (listdir fs test_dir), isdir fs (test_dir @ vp)])"

text \<open>
  The entries of \<open>dir\<close> that are directories, in sorted order, each as a path.
\<close>

definition class_dirs :: "filesystem \<Rightarrow> string \<Rightarrow> string list" where
  "class_dirs fs dir = map ((@) dir) (filter (\<lambda>vp. isdir fs (dir @ vp)) (sort (listdir fs dir)))"

text \<open>
  A test directory with the class directories \<open>SNP\<close> and \<open>INDEL\<close> and a file.
\<close>

definition ex_fs :: filesystem where
  "ex_fs =
     \<lparr>listdir = (\<lambda>d. if d = ''/data/test/'' then [''SNP'', ''README.txt'', ''INDEL''] else []),
      isdir = (\<lambda>p. p = ''/data/test/SNP'' \<or> p = ''/data/test/INDEL'')\<rparr>"

section \<open>The two definitions of roc_curve_through_learning\<close>












section \<open>The Keras tutorial: api_tutorials/keras_example.py\<close>

text \<open>
  A split of the data set is a pair of the inputs (a matrix, opaque here) and the
  targets (the label of each example).
\<close>

type_synonym 'x split = "'x \<times> int list"

text \<open>
  What \<open>load_data\<close> uses of its environment: \<open>os.path.isfile\<close>, \<open>os.path.split\<close>,
  \<open>os.path.join\<close> of three parts, the path of the module (\<open>__file__\<close>), and the
  triple that \<open>cPickle.load\<close> reads from the file at a path, after
  \<open>urllib.urlretrieve\<close> has fetched it there when the flag is true.
\<close>

record 'x environment =
  isfile :: "string \<Rightarrow> bool"
  path_split :: "string \<Rightarrow> string \<times> string"
  path_join :: "string \<Rightarrow> string \<Rightarrow> string \<Rightarrow> string"
  module_file :: string
  cPickle_load :: "string \<Rightarrow> bool \<Rightarrow> 'x split \<times> 'x split \<times> 'x split"

text \<open>Lines 87 to 105: the path that is opened, and whether it is downloaded first.\<close>

definition dataset_path :: "'x environment \<Rightarrow> string \<Rightarrow> string \<times> bool" where
  "dataset_path env dataset0 =
     (case path_split env dataset0 of
        (data_dir', data_file) \<Rightarrow>
          let dataset =
                (if data_dir' = [] \<and> \<not> isfile env dataset0 then
                   let new_path =
                         path_join env (fst (path_split env (module_file env))) ''data'' dataset0
                   in if isfile env new_path \<or> data_file = ''mnist.pkl.gz'' then new_path
                      else dataset0
                 else dataset0)
          in (dataset, \<not> isfile env dataset \<and> data_file = ''mnist.pkl.gz''))"

text \<open>
  Lines 110 to 119: \<open>train_set, valid_set, test_set = cPickle.load(f)\<close> and
  \<open>return train_set, valid_set, test_set\<close>.
\<close>

definition load_data :: "'x environment \<Rightarrow> string \<Rightarrow> 'x split \<times> 'x split \<times> 'x split" where
  "load_data env dataset =
     (case dataset_path env dataset of
        (path, download) \<Rightarrow>
          (case cPickle_load env path download of
             (train_set, valid_set, test_set) \<Rightarrow> (train_set, valid_set, test_set)))"

text \<open>
  \<open>make_one_hot\<close>: a row of zeros for each label with a one at the label's index. An
  index counts from the end when it is negative, and \<open>IndexError\<close>, which is \<open>None\<close>
  here, is raised when it is out of range.
\<close>

definition one_hot_row :: "nat \<Rightarrow> int \<Rightarrow> real list option" where
  "one_hot_row num_labels l =
     (let j = (if l < 0 then int num_labels + l else l)
      in if 0 \<le> j \<and> j < int num_labels then Some ((replicate num_labels 0)[nat j := 1])
         else None)"

fun make_one_hot :: "int list \<Rightarrow> nat \<Rightarrow> real list list option" where
  "make_one_hot [] num_labels = Some []"
| "make_one_hot (l # y) num_labels =
     (case one_hot_row num_labels l of
        None \<Rightarrow> None
      | Some row \<Rightarrow>
          (case make_one_hot y num_labels of None \<Rightarrow> None | Some ohy \<Rightarrow> Some (row # ohy)))"

text \<open>
  What a tutorial function hands to Keras: the sizes of its dense layers, the data of
  \<open>fit\<close>, the \<open>validation_data\<close> of \<open>fit\<close>, and the data of \<open>evaluate\<close>, whose
  result is printed as the test set loss and accuracy.
\<close>

record 'x keras_run =
  dense_layers :: "nat list"
  fit_data :: "'x \<times> real list list"
  validation_data :: "'x \<times> real list list"
  evaluate_data :: "'x \<times> real list list"

text \<open>\<open>logistic_regression\<close>, lines 37 to 50.\<close>

definition logistic_regression :: "'x environment \<Rightarrow> 'x keras_run option" where
  "logistic_regression env =
     (case load_data env ''mnist.pkl.gz'' of
        (train, test, valid) \<Rightarrow>
          let num_labels = 10 in
          case make_one_hot (snd train) num_labels of None \<Rightarrow> None | Some train_y \<Rightarrow>
          case make_one_hot (snd valid) num_labels of None \<Rightarrow> None | Some valid_y \<Rightarrow>
          case make_one_hot (snd test) num_labels of None \<Rightarrow> None | Some test_y \<Rightarrow>
            Some \<lparr>dense_layers = [10],
                  fit_data = (fst train, train_y),
                  validation_data = (fst valid, valid_y),
                  evaluate_data = (fst test, test_y)\<rparr>)"

text \<open>\<open>multilayer_perceptron\<close>, lines 53 to 67.\<close>

definition multilayer_perceptron :: "'x environment \<Rightarrow> 'x keras_run option" where
  "multilayer_perceptron env =
     (case load_data env ''mnist.pkl.gz'' of
        (train, test, valid) \<Rightarrow>
          let num_labels = 10 in
          case make_one_hot (snd train) num_labels of None \<Rightarrow> None | Some train_y \<Rightarrow>
          case make_one_hot (snd valid) num_labels of None \<Rightarrow> None | Some valid_y \<Rightarrow>
          case make_one_hot (snd test) num_labels of None \<Rightarrow> None | Some test_y \<Rightarrow>
            Some \<lparr>dense_layers = [300, 10],
                  fit_data = (fst train, train_y),
                  validation_data = (fst valid, valid_y),
                  evaluate_data = (fst test, test_y)\<rparr>)"

text \<open>
  An environment whose pickled file holds three splits of one example each, with the
  inputs named \<open>train\<close>, \<open>valid\<close> and \<open>test\<close> and the labels 0, 1 and 2.
\<close>

definition ex_env :: "string environment" where
  "ex_env =
     \<lparr>isfile = (\<lambda>p. p = ''mnist.pkl.gz''),
      path_split = (\<lambda>p. ([], p)),
      path_join = (\<lambda>a b c. a @ ''/'' @ b @ ''/'' @ c),
      module_file = ''keras_example.py'',
      cPickle_load = (\<lambda>p d. ((''train'', [0]), (''valid'', [1]), (''test'', [2])))\<rparr>"

section \<open>Properties of the dispatcher\<close>

lemma run_arm_if_elif:
  "run_arm args = if_elif recipe_arms (unknown_mode (mode args)) (mode args)"
  unfolding run_arm_def recipe_arms_def if_elif.simps by (rule refl)

lemma distinct_recognized_modes: "distinct recognized_modes"
  unfolding recognized_modes_def recipe_arms_def by simp

lemma if_elif_find:
  "if_elif ps d m = (case find (\<lambda>arm. fst arm = m) ps of None \<Rightarrow> d | Some arm \<Rightarrow> snd arm)"
  by (induction ps) auto

lemma if_elif_absent: "m \<notin> fst ` set ps \<Longrightarrow> if_elif ps d m = d"
  by (induction ps) auto

lemma if_elif_member:
  "distinct (map fst ps) \<Longrightarrow> (m, b) \<in> set ps \<Longrightarrow> if_elif ps d m = b"
  by (induction ps) (auto simp: rev_image_eqI)

lemma if_elif_map_of:
  "if_elif ps d m = (case map_of ps m of None \<Rightarrow> d | Some b \<Rightarrow> b)"
  by (induction ps) auto

lemma fold_upd_map_of:
  "distinct (map fst ps) \<Longrightarrow> fold (\<lambda>(k, v) t. t(k \<mapsto> v)) ps t = t ++ map_of ps"
proof (induction ps arbitrary: t)
  case Nil
  then show ?case by simp
next
  case (Cons p ps)
  obtain k v where p: "p = (k, v)" by (cases p)
  from Cons.prems p have fresh: "map_of ps k = None" and d: "distinct (map fst ps)"
    by (auto simp: map_of_eq_None_iff)
  have "fold (\<lambda>(k, v) t. t(k \<mapsto> v)) (p # ps) t = fold (\<lambda>(k, v) t. t(k \<mapsto> v)) ps (t(k \<mapsto> v))"
    by (simp add: p)
  also have "\<dots> = (t(k \<mapsto> v)) ++ map_of ps"
    by (rule Cons.IH [OF d])
  also have "\<dots> = t ++ map_of (p # ps)"
    using fresh p by (auto simp: map_add_def fun_eq_iff split: option.splits)
  finally show ?case .
qed

lemma recipe_table_map_of: "recipe_table = map_of recipe_arms"
  using fold_upd_map_of [of recipe_arms Map.empty] distinct_recognized_modes
  by (simp add: recipe_table_def recognized_modes_def)

lemma first_match_not_last_entry:
  "if_elif [(''k'', 1::nat), (''k'', 2)] 0 ''k'' = 1 \<and>
   fold (\<lambda>(k, v) t. t(k \<mapsto> v)) [(''k'', 1::nat), (''k'', 2)] Map.empty ''k'' = Some 2"
  by simp

text \<open>
  C3. The if/elif chain of \<open>run()\<close> selects, for every mode string, the same action as
  one lookup in the table from mode strings to actions with the error action as default;
  the mode strings tested in the chain are pairwise distinct. (For a chain with a repeated
  literal the two would differ, as \<open>first_match_not_last_entry\<close> shows.)
\<close>

theorem chain_is_lookup:
  "run_arm args = run_by_lookup args \<and> distinct recognized_modes"
  by (simp add: run_arm_if_elif run_by_lookup_def recipe_table_map_of if_elif_map_of
      distinct_recognized_modes)

lemma exec_calls_invoke:
  "\<not> is_print c \<Longrightarrow>
   exec_calls invoke (c # cs) (s, out) =
     (case invoke c s of Inl e \<Rightarrow> Inl e | Inr s' \<Rightarrow> exec_calls invoke cs (s', out))"
  by (cases c) simp_all

text \<open>The body of every arm is one call or two, and none of them is a \<open>print\<close>.\<close>

lemma arm_bodies:
  "arm \<in> set recipe_arms \<Longrightarrow>
   (\<exists>c. snd arm = [c] \<and> \<not> is_print c) \<or>
   (\<exists>c d. snd arm = [c, d] \<and> \<not> is_print c \<and> \<not> is_print d)"
  unfolding recipe_arms_def by auto

text \<open>
  C1. For every parsed argument record \<open>run()\<close> executes exactly one arm of its
  dispatch: the first one whose literal is equal to \<open>args.mode\<close>, and the \<open>else\<close> arm
  when there is none. When \<open>args.mode\<close> is one of the recognized mode strings, exactly
  one arm is guarded by that string, and \<open>run()\<close> invokes the calls of that arm's body,
  in order, and nothing else: the outcome of \<open>run()\<close> is the outcome of these calls,
  each given the state that the one before it left, and an exception of a call is the
  exception of \<open>run()\<close>; nothing is printed. Otherwise it invokes nothing and prints
  the error message.
\<close>

theorem run_enters_one_arm:
  "run_arm args =
     (case find (\<lambda>arm. fst arm = mode args) recipe_arms of
        None \<Rightarrow> unknown_mode (mode args)
      | Some arm \<Rightarrow> snd arm) \<and>
   (mode args \<in> set recognized_modes \<longrightarrow>
      (\<exists>!arm. arm \<in> set recipe_arms \<and> fst arm = mode args) \<and>
      (\<forall>arm \<in> set recipe_arms. fst arm = mode args \<longrightarrow>
         run_arm args = snd arm \<and>
         ((\<exists>c. snd arm = [c] \<and> \<not> is_print c \<and>
               run invoke args (s, out) =
                 (case invoke c s of Inl e \<Rightarrow> Inl e | Inr s' \<Rightarrow> Inr (s', out))) \<or>
          (\<exists>c d. snd arm = [c, d] \<and> \<not> is_print c \<and> \<not> is_print d \<and>
               run invoke args (s, out) =
                 (case invoke c s of
                    Inl e \<Rightarrow> Inl e
                  | Inr s' \<Rightarrow>
                      (case invoke d s' of Inl e \<Rightarrow> Inl e | Inr s'' \<Rightarrow> Inr (s'', out))))))) \<and>
   (mode args \<notin> set recognized_modes \<longrightarrow>
      run invoke args (s, out) =
        Inr (s, out @ [[''\<newline>\<newline> ERROR! Unknown recipe mode:'', mode args,
                        ''\<newline>\<newline>\<newline>'']]))"
  (is "?first \<and> (?known \<longrightarrow> ?one \<and> ?invoked) \<and> (\<not> ?known \<longrightarrow> ?printed)")
proof (intro conjI impI)
  show ?first
    by (simp add: run_arm_if_elif if_elif_find)
next
  assume "\<not> ?known"
  then show ?printed
    by (simp add: run_def run_arm_if_elif if_elif_absent recognized_modes_def unknown_mode_def)
next
  assume known: ?known
  have d: "distinct (map fst recipe_arms)"
    using distinct_recognized_modes by (simp add: recognized_modes_def)
  from known obtain arm where arm: "arm \<in> set recipe_arms" "fst arm = mode args"
    by (auto simp: recognized_modes_def)
  moreover have "arm' = arm"
    if "arm' \<in> set recipe_arms" "fst arm' = mode args" for arm'
    using that arm d by (metis eq_key_imp_eq_value prod.collapse)
  ultimately show ?one
    by blast
  show ?invoked
  proof (intro ballI impI conjI)
    fix arm
    assume arm: "arm \<in> set recipe_arms" "fst arm = mode args"
    then show selected: "run_arm args = snd arm"
      using d by (metis if_elif_member prod.collapse run_arm_if_elif)
    from arm_bodies [OF arm(1)]
    show "(\<exists>c. snd arm = [c] \<and> \<not> is_print c \<and>
               run invoke args (s, out) =
                 (case invoke c s of Inl e \<Rightarrow> Inl e | Inr s' \<Rightarrow> Inr (s', out))) \<or>
          (\<exists>c d. snd arm = [c, d] \<and> \<not> is_print c \<and> \<not> is_print d \<and>
               run invoke args (s, out) =
                 (case invoke c s of
                    Inl e \<Rightarrow> Inl e
                  | Inr s' \<Rightarrow>
                      (case invoke d s' of Inl e \<Rightarrow> Inl e | Inr s'' \<Rightarrow> Inr (s'', out))))"
    proof (elim disjE exE conjE)
      fix c
      assume "snd arm = [c]" "\<not> is_print c"
      then show ?thesis
        by (auto simp: run_def selected exec_calls_invoke split: sum.splits)
    next
      fix c d
      assume "snd arm = [c, d]" "\<not> is_print c" "\<not> is_print d"
      then show ?thesis
        by (auto simp: run_def selected exec_calls_invoke split: sum.splits)
    qed
  qed
qed

text \<open>
  The theorem at a record whose mode is \<open>train_bqsr_lstm\<close>: the one call that is
  invoked is that of \<open>bqsr_lstm_train_tensor\<close>, and when it raises so does \<open>run()\<close>.
\<close>

theorem run_enters_one_arm_witness:
  "mode example_args \<in> set recognized_modes \<and>
   (''train_bqsr_lstm'', [Recipes ''bqsr_lstm_train_tensor'']) \<in> set recipe_arms \<and>
   run_arm example_args = [Recipes ''bqsr_lstm_train_tensor''] \<and>
   run recording example_args ([], []) = Inr ([Recipes ''bqsr_lstm_train_tensor''], []) \<and>
   run failing example_args ([], []) = Inl (LibraryError ''failed'')"
proof -
  have known: "mode example_args \<in> set recognized_modes"
    by (simp add: example_args_def recognized_modes_def recipe_arms_def)
  have arm: "(''train_bqsr_lstm'', [Recipes ''bqsr_lstm_train_tensor'']) \<in> set recipe_arms"
    by (simp add: recipe_arms_def)
  have m: "fst (''train_bqsr_lstm'', [Recipes ''bqsr_lstm_train_tensor'']) = mode example_args"
    by (simp add: example_args_def)
  have "run_arm example_args = [Recipes ''bqsr_lstm_train_tensor'']"
    using run_enters_one_arm [of example_args recording "[]" "[]"] known arm m by fastforce
  moreover have "run recording example_args ([], []) =
      Inr ([Recipes ''bqsr_lstm_train_tensor''], [])"
    using run_enters_one_arm [of example_args recording "[]" "[]"] known arm m
    by (fastforce simp: recording_def)
  moreover have "run failing example_args ([], []) = Inl (LibraryError ''failed'')"
    using run_enters_one_arm [of example_args failing "[]" "[]"] known arm m
    by (fastforce simp: failing_def)
  ultimately show ?thesis using known arm by simp
qed

text \<open>
  C2. For every mode string that is none of the recognized ones, \<open>run()\<close> calls no
  function of recipes.py, \<open>td\<close> or \<open>models\<close>, whatever those would do: it does not
  raise, it prints the error message that names the mode, and it returns with the
  program state as it was.
\<close>

theorem unknown_mode_only_prints:
  "mode args \<notin> set recognized_modes \<Longrightarrow>
   run_arm args = unknown_mode (mode args) \<and>
   run invoke args (s, out) =
     Inr (s, out @ [[''\<newline>\<newline> ERROR! Unknown recipe mode:'', mode args,
                     ''\<newline>\<newline>\<newline>'']])"
  by (simp add: run_def run_arm_if_elif if_elif_absent recognized_modes_def unknown_mode_def)

text \<open>The theorem at the mode \<open>train\<close>, which no arm tests.\<close>

theorem unknown_mode_only_prints_witness:
  "mode unknown_args \<notin> set recognized_modes \<and>
   run (\<lambda>c s. Inl (LibraryError ''unreachable'')) unknown_args ((0::nat), []) =
     Inr (0, [[''\<newline>\<newline> ERROR! Unknown recipe mode:'', ''train'',
               ''\<newline>\<newline>\<newline>'']])"
proof -
  have unknown: "mode unknown_args \<notin> set recognized_modes"
    by (simp add: unknown_args_def example_args_def recognized_modes_def recipe_arms_def)
  from unknown_mode_only_prints [OF unknown, of "\<lambda>c s. Inl (LibraryError ''unreachable'')" "0::nat" "[]"]
    unknown
  show ?thesis by (simp add: unknown_args_def example_args_def)
qed

text \<open>
  C7. The arm that \<open>run()\<close> selects depends on the mode field only: two parsed argument
  records with the same mode, whatever their other fields (and whatever further fields
  each of them has), select the same arm.
\<close>

theorem run_arm_depends_on_mode_only:
  "mode a = mode b \<Longrightarrow> run_arm a = run_arm b"
  by (simp add: run_arm_if_elif)


text \<open>
  The theorem at two records that agree on the mode and differ in every other field.
\<close>

theorem run_arm_depends_on_mode_only_witness:
  "mode example_args = mode other_args \<and> example_args \<noteq> other_args \<and>
   run_arm example_args = run_arm other_args"
proof -
  have same: "mode example_args = mode other_args"
    by (simp add: example_args_def other_args_def)
  have "data_dir example_args \<noteq> data_dir other_args"
    by (simp add: example_args_def other_args_def)
  then have "example_args \<noteq> other_args" by auto
  with same run_arm_depends_on_mode_only [OF same] show ?thesis by simp
qed

section \<open>Properties of the BQSR training recipes\<close>


lemma load_args: "load fr ''args'' = Inr (VArgs (f_args fr))"
  by (simp add: load_def)

lemma load_local: "f_locals fr x = Some v \<Longrightarrow> x \<noteq> ''args'' \<Longrightarrow> load fr x = Inr (VObj v)"
  by (simp add: load_def)


lemmas stmt_defs =
  enter_def assign_def assign_attr_def assign3_def expr_stmt_def call_expr_def attr_expr_def

subsection \<open>No call reaches the training\<close>











subsection \<open>The exception that ends the call\<close>


text \<open>A library call that raises ends the call with its exception.\<close>

lemma bqsr_lstm_library_raises:
  "attr L ''defines.base_labels_binary'' = Inl e \<Longrightarrow>
     raised (bqsr_lstm_train_tensor L a) = Some e"
  "attr L ''defines.base_labels_binary'' = Inr l \<Longrightarrow>
   call L ''defines.bqsr_tensor_channel_map'' [] = Inl e \<Longrightarrow>
     raised (bqsr_lstm_train_tensor L a) = Some e"
  "attr L ''defines.base_labels_binary'' = Inr l \<Longrightarrow>
   call L ''defines.bqsr_tensor_channel_map'' [] = Inr s \<Longrightarrow>
   call3 L ''td.get_train_valid_test_paths'' [VArgs (a\<lparr>labels := l, input_symbols := s\<rparr>)] =
     Inl e \<Longrightarrow>
     raised (bqsr_lstm_train_tensor L a) = Some e"
  by (simp_all add: bqsr_lstm_train_tensor_def stmt_defs load_args)

text \<open>
  The sibling \<open>bqsr_train_tensor\<close> binds \<open>weight_path\<close> before the training call: with
  a library whose calls return it raises nothing and enters the training function.
\<close>

lemma bqsr_train_tensor_frame:
  "raised (bqsr_train_tensor example_library a) = None \<and>
   f_trace (bqsr_train_tensor example_library a) =
     [''defines.bqsr_tensor_channel_map'', ''td.get_train_valid_test_paths'',
      ''td.bqsr_tensor_generator'', ''td.bqsr_tensor_generator'',
      ''arguments.weight_path_from_args'', ''models.build_bqsr_model'',
      ''models.train_model_from_generators'', ''td.load_bqsr_tensors_from_class_dirs'',
      ''plots.plot_roc_per_class'']"
  by (simp add: bqsr_train_tensor_def example_library_def stmt_defs load_args load_local)






section \<open>Properties of the comparison with the filters\<close>

lemma comprehension_total: "comprehension (\<lambda>p. Inr (g p)) ks = Inr (map g ks)"
  by (induction ks) simp_all



















section \<open>Properties of the comparison with the gnomAD models\<close>

lemma fold_inter: "fold (\<lambda>t acc. acc \<inter> t) ss s = s \<inter> \<Inter> (set ss)"
  by (induction ss arbitrary: s) auto

lemma gnomad_keys_baselines:
  "test_tensor_vs_gnomad_keys args td =
     Some (\<Inter> (set (snp_baselines args td)), \<Inter> (set (indel_baselines args td)))"
  by (cases "gnomad_vqsr td"; cases "gnomad_rf td"; cases "single_sample td";
      cases "deep_variant td (deep_variant_vcf args)"; cases "single_sample_vqsr args";
      cases "deep_variant_vcf args = []")
    (simp_all add: test_tensor_vs_gnomad_keys_def snp_baselines_def indel_baselines_def
      fold_inter Let_def Int_ac)

text \<open>Switching an option off removes a key set from the list and adds none.\<close>

lemma baselines_disable:
  "set (snp_baselines (args\<lparr>single_sample_vqsr := False\<rparr>) td) \<subseteq> set (snp_baselines args td)"
  "set (snp_baselines (args\<lparr>deep_variant_vcf := []\<rparr>) td) \<subseteq> set (snp_baselines args td)"
  "set (snp_baselines (args\<lparr>single_sample_vqsr := False, deep_variant_vcf := []\<rparr>) td)
     \<subseteq> set (snp_baselines args td)"
  "set (indel_baselines (args\<lparr>single_sample_vqsr := False\<rparr>) td)
     \<subseteq> set (indel_baselines args td)"
  "set (indel_baselines (args\<lparr>deep_variant_vcf := []\<rparr>) td) \<subseteq> set (indel_baselines args td)"
  "set (indel_baselines (args\<lparr>single_sample_vqsr := False, deep_variant_vcf := []\<rparr>) td)
     \<subseteq> set (indel_baselines args td)"
  by (auto simp: snp_baselines_def indel_baselines_def)

text \<open>
  C6. In \<open>test_tensor_vs_gnomad\<close> the evaluated positions \<open>shared_snp_keys\<close> and
  \<open>shared_indel_keys\<close> are the intersections of the key sets of the baseline
  dictionaries that are switched on; with \<open>args.single_sample_vqsr\<close> or
  \<open>args.deep_variant_vcf\<close> (or both) switched off on the same inputs, the evaluated
  sets are supersets: enabling the options never enlarges them.
\<close>

theorem gnomad_shared_keys_shrink:
  "\<exists>S I S1 I1 S2 I2 S0 I0.
     test_tensor_vs_gnomad_keys args td = Some (S, I) \<and>
     S = \<Inter> (set (snp_baselines args td)) \<and> I = \<Inter> (set (indel_baselines args td)) \<and>
     test_tensor_vs_gnomad_keys (args\<lparr>single_sample_vqsr := False\<rparr>) td = Some (S1, I1) \<and>
     test_tensor_vs_gnomad_keys (args\<lparr>deep_variant_vcf := []\<rparr>) td = Some (S2, I2) \<and>
     test_tensor_vs_gnomad_keys (args\<lparr>single_sample_vqsr := False, deep_variant_vcf := []\<rparr>) td =
       Some (S0, I0) \<and>
     S \<subseteq> S1 \<and> I \<subseteq> I1 \<and> S \<subseteq> S2 \<and> I \<subseteq> I2 \<and> S \<subseteq> S0 \<and> I \<subseteq> I0 \<and>
     S0 = set (keys (fst (gnomad_vqsr td))) \<inter> set (keys (fst (gnomad_rf td))) \<and>
     I0 = set (keys (snd (gnomad_vqsr td))) \<inter> set (keys (snd (gnomad_rf td)))"
proof -
  have "\<Inter> (set (snp_baselines (args\<lparr>single_sample_vqsr := False, deep_variant_vcf := []\<rparr>) td)) =
      set (keys (fst (gnomad_vqsr td))) \<inter> set (keys (fst (gnomad_rf td)))"
    "\<Inter> (set (indel_baselines (args\<lparr>single_sample_vqsr := False, deep_variant_vcf := []\<rparr>) td)) =
      set (keys (snd (gnomad_vqsr td))) \<inter> set (keys (snd (gnomad_rf td)))"
    by (simp_all add: snp_baselines_def indel_baselines_def)
  then show ?thesis
    using baselines_disable [of args td, THEN Inter_anti_mono]
    by (simp add: gnomad_keys_baselines)
qed

text \<open>
  The theorem at inputs where both options are on: the evaluated SNP positions are
  \<open>{2}\<close>, and \<open>{1, 2}\<close> with the options off.
\<close>

theorem gnomad_shared_keys_shrink_witness:
  "test_tensor_vs_gnomad_keys other_args ex_gnomad = Some ({2}, {}) \<and>
   test_tensor_vs_gnomad_keys
     (other_args\<lparr>single_sample_vqsr := False, deep_variant_vcf := []\<rparr>) ex_gnomad =
     Some ({1, 2}, {1, 2, 3})"
proof -
  have on: "test_tensor_vs_gnomad_keys other_args ex_gnomad = Some ({2}, {})"
    by (simp add: test_tensor_vs_gnomad_keys_def other_args_def ex_gnomad_def keys_def
        ex_heng_li_def ex_gatk_def ex_gatk_scores_def)
  have off: "set (keys (fst (gnomad_vqsr ex_gnomad))) \<inter> set (keys (fst (gnomad_rf ex_gnomad))) =
      {1, 2}"
    "set (keys (snd (gnomad_vqsr ex_gnomad))) \<inter> set (keys (snd (gnomad_rf ex_gnomad))) =
      {1, 2, 3}"
    by (auto simp: ex_gnomad_def keys_def ex_heng_li_def ex_gatk_scores_def)
  from gnomad_shared_keys_shrink [of other_args ex_gnomad] on off
  show ?thesis by auto
qed

section \<open>Properties of the class directories\<close>

lemma prefix_mono: "(xs :: string) \<le> ys \<Longrightarrow> p @ xs \<le> p @ ys"
  by (auto simp: list_le_def list_less_def lexord_append_leftI)

lemma sorted_class_dirs: "sorted (class_dirs fs dir)"
proof -
  have "sorted (filter (\<lambda>vp. isdir fs (dir @ vp)) (sort (listdir fs dir)))"
    by (rule sorted_wrt_filter) simp
  then show ?thesis
    unfolding class_dirs_def sorted_map
    by (rule sorted_wrt_mono_rel [rotated]) (simp add: prefix_mono)
qed

lemma set_class_dirs:
  "set (class_dirs fs dir) = {dir @ vp | vp. vp \<in> set (listdir fs dir) \<and> isdir fs (dir @ vp)}"
  by (auto simp: class_dirs_def)

lemma comprehension_filter:
  "concat (map (\<lambda>x. if P x then [f x] else []) xs) = map f (filter P xs)"
  by (induction xs) auto

lemma paths_class_dirs:
  "test_reference_net_paths fs args = class_dirs fs (data_dir args @ ''test/'')"
  "test_reference_annotation_net_paths fs args = class_dirs fs (data_dir args @ ''test/'')"
  "test_annotation_multilayer_perceptron_paths fs args =
     class_dirs fs (data_dir args @ ''test/'')"
  by (simp_all add: test_reference_net_paths_def test_reference_annotation_net_paths_def
      test_annotation_multilayer_perceptron_paths_def class_dirs_def Let_def
      comprehension_filter)

text \<open>
  C8. In \<open>test_reference_net\<close>, \<open>test_reference_annotation_net\<close> and
  \<open>test_annotation_multilayer_perceptron\<close> the class paths are exactly the entries of
  the directory \<open>args.data_dir + 'test/'\<close> that are themselves directories, each
  prefixed with that directory, in the sorted order of the listing.
\<close>

theorem test_paths_sorted_class_dirs:
  "test_reference_net_paths fs args = class_dirs fs (data_dir args @ ''test/'') \<and>
   test_reference_annotation_net_paths fs args = class_dirs fs (data_dir args @ ''test/'') \<and>
   test_annotation_multilayer_perceptron_paths fs args =
     class_dirs fs (data_dir args @ ''test/'') \<and>
   class_dirs fs (data_dir args @ ''test/'') =
     map ((@) (data_dir args @ ''test/''))
       (filter (\<lambda>vp. isdir fs (data_dir args @ ''test/'' @ vp))
          (sort (listdir fs (data_dir args @ ''test/'')))) \<and>
   set (class_dirs fs (data_dir args @ ''test/'')) =
     {data_dir args @ ''test/'' @ vp | vp.
        vp \<in> set (listdir fs (data_dir args @ ''test/'')) \<and>
        isdir fs (data_dir args @ ''test/'' @ vp)} \<and>
   sorted (class_dirs fs (data_dir args @ ''test/''))"
  using paths_class_dirs [of fs args] set_class_dirs [of fs "data_dir args @ ''test/''"]
    sorted_class_dirs [of fs "data_dir args @ ''test/''"]
  by (simp add: class_dirs_def)

text \<open>
  The theorem at a test directory that holds \<open>SNP\<close>, \<open>README.txt\<close> and \<open>INDEL\<close>,
  listed in this order, of which \<open>README.txt\<close> is a file.
\<close>

theorem test_paths_sorted_class_dirs_witness:
  "test_reference_net_paths ex_fs example_args = [''/data/test/INDEL'', ''/data/test/SNP''] \<and>
   test_reference_annotation_net_paths ex_fs example_args =
     [''/data/test/INDEL'', ''/data/test/SNP''] \<and>
   test_annotation_multilayer_perceptron_paths ex_fs example_args =
     [''/data/test/INDEL'', ''/data/test/SNP'']"
proof -
  have "class_dirs ex_fs (data_dir example_args @ ''test/'') =
      [''/data/test/INDEL'', ''/data/test/SNP'']"
    by (simp add: class_dirs_def ex_fs_def example_args_def)
  with test_paths_sorted_class_dirs [of ex_fs example_args] show ?thesis
    by (simp only:)
qed

section \<open>Properties of roc_curve_through_learning\<close>











section \<open>Properties of the Keras tutorial\<close>

lemma load_data_order:
  "load_data env dataset =
     (case dataset_path env dataset of (path, download) \<Rightarrow> cPickle_load env path download)"
  by (simp add: load_data_def split: prod.splits)

text \<open>The labels can be encoded exactly when each is an index of a row.\<close>

lemma one_hot_row_Some_iff:
  "(\<exists>row. one_hot_row n l = Some row) \<longleftrightarrow> - int n \<le> l \<and> l < int n"
  by (auto simp: one_hot_row_def Let_def)

lemma make_one_hot_Some_iff:
  "(\<exists>ohy. make_one_hot y n = Some ohy) \<longleftrightarrow> (\<forall>l \<in> set y. - int n \<le> l \<and> l < int n)"
proof (induction y)
  case Nil
  then show ?case by simp
next
  case (Cons l y)
  show ?case
    using Cons.IH one_hot_row_Some_iff [of n l]
    by (cases "one_hot_row n l"; cases "make_one_hot y n") auto
qed

lemma make_one_hot_length: "make_one_hot y n = Some ohy \<Longrightarrow> length ohy = length y"
  by (induction y arbitrary: ohy) (auto split: option.splits)

text \<open>
  C10. \<open>load_data\<close> returns the splits in the order \<open>(train_set, valid_set, test_set)\<close>
  in which it unpickled them, and \<open>logistic_regression\<close> and \<open>multilayer_perceptron\<close>
  unpack the result as \<open>train, test, valid\<close>. So in both, whenever the labels can be
  encoded, the data that is evaluated and printed as the test set is the second
  component of \<open>load_data\<close>'s result (the validation split), and the
  \<open>validation_data\<close> of \<open>fit\<close> is the third (the test split).
\<close>

theorem tutorial_swaps_test_and_valid:
  assumes "cPickle_load env (fst (dataset_path env ''mnist.pkl.gz''))
             (snd (dataset_path env ''mnist.pkl.gz'')) = (train_set, valid_set, test_set)"
    and "make_one_hot (snd train_set) 10 = Some train_hot"
    and "make_one_hot (snd valid_set) 10 = Some valid_hot"
    and "make_one_hot (snd test_set) 10 = Some test_hot"
  shows "load_data env ''mnist.pkl.gz'' = (train_set, valid_set, test_set) \<and>
    logistic_regression env =
      Some \<lparr>dense_layers = [10],
            fit_data = (fst train_set, train_hot),
            validation_data = (fst test_set, test_hot),
            evaluate_data = (fst valid_set, valid_hot)\<rparr> \<and>
    multilayer_perceptron env =
      Some \<lparr>dense_layers = [300, 10],
            fit_data = (fst train_set, train_hot),
            validation_data = (fst test_set, test_hot),
            evaluate_data = (fst valid_set, valid_hot)\<rparr>"
proof -
  have ld: "load_data env ''mnist.pkl.gz'' = (train_set, valid_set, test_set)"
    using assms(1) by (simp add: load_data_order case_prod_beta)
  show ?thesis
    using assms(2-4) by (simp add: ld logistic_regression_def multilayer_perceptron_def)
qed

text \<open>
  The theorem at the example environment: the inputs evaluated are those of the split
  that was pickled second, the validation inputs are those of the split pickled third.
\<close>

theorem tutorial_swaps_test_and_valid_witness:
  "load_data ex_env ''mnist.pkl.gz'' = ((''train'', [0]), (''valid'', [1]), (''test'', [2])) \<and>
   logistic_regression ex_env =
     Some \<lparr>dense_layers = [10],
           fit_data = (''train'', [[1, 0, 0, 0, 0, 0, 0, 0, 0, 0]]),
           validation_data = (''test'', [[0, 0, 1, 0, 0, 0, 0, 0, 0, 0]]),
           evaluate_data = (''valid'', [[0, 1, 0, 0, 0, 0, 0, 0, 0, 0]])\<rparr>"
proof -
  have p: "cPickle_load ex_env (fst (dataset_path ex_env ''mnist.pkl.gz''))
             (snd (dataset_path ex_env ''mnist.pkl.gz'')) =
           ((''train'', [0]), (''valid'', [1]), (''test'', [2]))"
    by (simp add: ex_env_def)
  have h: "make_one_hot (snd (''train'', [0::int])) 10 = Some [[1, 0, 0, 0, 0, 0, 0, 0, 0, 0]]"
    "make_one_hot (snd (''valid'', [1::int])) 10 = Some [[0, 1, 0, 0, 0, 0, 0, 0, 0, 0]]"
    "make_one_hot (snd (''test'', [2::int])) 10 = Some [[0, 0, 1, 0, 0, 0, 0, 0, 0, 0]]"
    by (simp_all add: one_hot_row_def eval_nat_numeral)
  from tutorial_swaps_test_and_valid [OF p h] show ?thesis by simp
qed


end
